theory Spec2Isabelle
  imports Complex_Main
begin

section \<open>Python strings\<close>

text \<open>
  A Python \<open>str\<close> is modelled as a \<open>string\<close> holding its UTF-8 bytes. Every character
  the three scripts look for (backtick, braces, blank, newline, slash) is ASCII and never
  occurs inside a multi-byte sequence. \<open>str.strip()\<close>, \<open>str.lower()\<close> and
  \<open>str.upper()\<close> are modelled on ASCII; the further Unicode blanks and letters that
  Python also treats are left alone.
\<close>

definition is_space :: "char \<Rightarrow> bool" where
  "is_space c = (c \<in> set [CHR '' '', CHR 0x09, CHR 0x0A, CHR 0x0B, CHR 0x0C, CHR 0x0D,
                           CHR 0x1C, CHR 0x1D, CHR 0x1E, CHR 0x1F])"

definition strip_chars :: "char list \<Rightarrow> string \<Rightarrow> string" where
  \<comment> \<open>\<open>s.strip(chars)\<close>: removes from both ends every character that is in \<open>chars\<close>.\<close>
  "strip_chars cs s =
     rev (dropWhile (\<lambda>c. c \<in> set cs) (rev (dropWhile (\<lambda>c. c \<in> set cs) s)))"

definition strip :: "string \<Rightarrow> string" where
  \<comment> \<open>\<open>s.strip()\<close>\<close>
  "strip s = rev (dropWhile is_space (rev (dropWhile is_space s)))"

definition lower_char :: "char \<Rightarrow> char" where
  "lower_char c =
     (let n = (of_char c :: nat) in if 65 \<le> n \<and> n \<le> 90 then char_of (n + 32) else c)"

definition upper_char :: "char \<Rightarrow> char" where
  "upper_char c =
     (let n = (of_char c :: nat) in if 97 \<le> n \<and> n \<le> 122 then char_of (n - 32) else c)"

definition lower :: "string \<Rightarrow> string" where
  "lower s = map lower_char s"

definition upper :: "string \<Rightarrow> string" where
  "upper s = map upper_char s"

definition startswith :: "string \<Rightarrow> string \<Rightarrow> bool" where
  \<comment> \<open>\<open>s.startswith(p)\<close>\<close>
  "startswith p s = (take (length p) s = p)"

fun join :: "string \<Rightarrow> string list \<Rightarrow> string" where
  \<comment> \<open>\<open>sep.join(xs)\<close>\<close>
  "join sep [] = []"
| "join sep [x] = x"
| "join sep (x # y # ys) = x @ sep @ join sep (y # ys)"

definition split1 :: "char \<Rightarrow> string \<Rightarrow> string list" where
  \<comment> \<open>\<open>s.split(c, 1)\<close>: at most one cut, at the first occurrence of \<open>c\<close>.\<close>
  "split1 c s =
     (if c \<in> set s then [takeWhile (\<lambda>x. x \<noteq> c) s, tl (dropWhile (\<lambda>x. x \<noteq> c) s)] else [s])"


section \<open>Numbers of a pandas column\<close>

text \<open>
  The \<open>amount\<close> column holds float64 values. They are modelled as exact rationals
  together with the two infinities and NaN, which \<open>read_csv\<close> and \<open>read_excel\<close> produce
  for \<open>inf\<close>, \<open>-inf\<close> and an empty cell. Rounding and signed zeros are not modelled:
  an operation on finite values gives the exact rational result.
\<close>

datatype fl = Fin rat | PInf | NInf | NaN

fun fl_add :: "fl \<Rightarrow> fl \<Rightarrow> fl" where
  "fl_add NaN y = NaN"
| "fl_add x NaN = NaN"
| "fl_add (Fin a) (Fin b) = Fin (a + b)"
| "fl_add (Fin a) y = y"
| "fl_add x (Fin b) = x"
| "fl_add PInf PInf = PInf"
| "fl_add NInf NInf = NInf"
| "fl_add PInf NInf = NaN"
| "fl_add NInf PInf = NaN"

fun fl_neg :: "fl \<Rightarrow> fl" where
  "fl_neg (Fin a) = Fin (- a)"
| "fl_neg PInf = NInf"
| "fl_neg NInf = PInf"
| "fl_neg NaN = NaN"

definition fl_sub :: "fl \<Rightarrow> fl \<Rightarrow> fl" where
  "fl_sub x y = fl_add x (fl_neg y)"

fun fl_sgn :: "fl \<Rightarrow> int" where
  "fl_sgn (Fin a) = (if a > 0 then 1 else if a < 0 then - 1 else 0)"
| "fl_sgn PInf = 1"
| "fl_sgn NInf = - 1"
| "fl_sgn NaN = 0"

definition fl_inf :: "int \<Rightarrow> fl" where
  "fl_inf s = (if s > 0 then PInf else if s < 0 then NInf else NaN)"

fun fl_mul :: "fl \<Rightarrow> fl \<Rightarrow> fl" where
  "fl_mul NaN y = NaN"
| "fl_mul x NaN = NaN"
| "fl_mul (Fin a) (Fin b) = Fin (a * b)"
| "fl_mul x y = fl_inf (fl_sgn x * fl_sgn y)"

fun fl_div :: "fl \<Rightarrow> fl \<Rightarrow> fl" where
  "fl_div NaN y = NaN"
| "fl_div x NaN = NaN"
| "fl_div (Fin a) (Fin b) = (if b = 0 then fl_inf (fl_sgn (Fin a)) else Fin (a / b))"
| "fl_div (Fin a) y = Fin 0"
| "fl_div x (Fin b) = fl_inf (fl_sgn x * (if b < 0 then - 1 else 1))"
| "fl_div x y = NaN"

definition isna :: "fl \<Rightarrow> bool" where
  \<comment> \<open>\<open>pd.isna(x)\<close> on a float\<close>
  "isna x = (x = NaN)"

fun fl_gt0 :: "fl \<Rightarrow> bool" where
  \<comment> \<open>\<open>x > 0\<close>: false for NaN\<close>
  "fl_gt0 (Fin a) = (a > 0)"
| "fl_gt0 PInf = True"
| "fl_gt0 x = False"

fun fl_lt0 :: "fl \<Rightarrow> bool" where
  \<comment> \<open>\<open>x < 0\<close>: false for NaN\<close>
  "fl_lt0 (Fin a) = (a < 0)"
| "fl_lt0 NInf = True"
| "fl_lt0 x = False"

fun fl_ne0 :: "fl \<Rightarrow> bool" where
  \<comment> \<open>\<open>x != 0\<close>: true for NaN\<close>
  "fl_ne0 (Fin a) = (a \<noteq> 0)"
| "fl_ne0 x = True"

definition nan_to_zero :: "fl \<Rightarrow> fl" where
  "nan_to_zero x = (if isna x then Fin 0 else x)"

definition nansum :: "fl list \<Rightarrow> fl" where
  \<comment> \<open>\<open>Series.sum()\<close>: NaN entries are skipped; the sum of no entries is 0.\<close>
  "nansum xs = foldl fl_add (Fin 0) (map nan_to_zero xs)"

definition nanmean :: "fl list \<Rightarrow> fl" where
  \<comment> \<open>\<open>Series.mean()\<close>: NaN entries are skipped; the mean of no entries is NaN.\<close>
  "nanmean xs =
     (let ys = filter (\<lambda>x. \<not> isna x) xs
      in if ys = [] then NaN else fl_div (foldl fl_add (Fin 0) ys) (Fin (of_nat (length ys))))"


section \<open>Instants, calendar dates and time zones\<close>

text \<open>
  An instant is a number of seconds since 1970-01-01T00:00:00Z (pandas counts
  nanoseconds; every instant the executor uses has been cut to a local midnight first,
  and the rows of a series are taken to carry whole seconds). A calendar date is a number
  of days since 1970-01-01, which was a Thursday; \<open>weekday\<close> is Python's: Monday is 0
  and Sunday is 6.
\<close>

definition day_secs :: int where
  "day_secs = 86400"

definition weekday :: "int \<Rightarrow> int" where
  "weekday d = (d + 3) mod 7"

text \<open>
  The rules of a zone are data of the tz database, not of this repository: a zone is
  its offset from UTC before the first transition, and the transitions in ascending
  order, each an instant with the offset in force from then on.
\<close>

record zone =
  base_offset :: int
  transitions :: "(int \<times> int) list"

fun offset_at_utc :: "int \<Rightarrow> (int \<times> int) list \<Rightarrow> int \<Rightarrow> int" where
  "offset_at_utc off [] u = off"
| "offset_at_utc off ((t, off') # ts) u = (if t \<le> u then offset_at_utc off' ts u else off)"

fun offset_at_wall :: "int \<Rightarrow> (int \<times> int) list \<Rightarrow> int \<Rightarrow> int" where
  \<comment> \<open>the offset that \<open>zoneinfo\<close> gives a wall-clock reading (\<open>fold=0\<close>): a reading that is
      skipped or repeated at a transition keeps the offset before it\<close>
  "offset_at_wall off [] w = off"
| "offset_at_wall off ((t, off') # ts) w =
     (if t + max off off' \<le> w then offset_at_wall off' ts w else off)"

definition utcoffset :: "zone \<Rightarrow> int \<Rightarrow> int" where
  "utcoffset z u = offset_at_utc (base_offset z) (transitions z) u"

definition from_wall :: "zone \<Rightarrow> int \<Rightarrow> int" where
  \<comment> \<open>the instant of a wall-clock reading in the zone\<close>
  "from_wall z w = w - offset_at_wall (base_offset z) (transitions z) w"

definition date_of :: "zone \<Rightarrow> int \<Rightarrow> int" where
  \<comment> \<open>\<open>Timestamp.date()\<close>: the calendar date in the timestamp's own zone\<close>
  "date_of z u = (u + utcoffset z u) div day_secs"

definition midnight :: "zone \<Rightarrow> int \<Rightarrow> int" where
  \<comment> \<open>\<open>pd.Timestamp(d, tz=tz)\<close> for a date \<open>d\<close>\<close>
  "midnight z d = from_wall z (d * day_secs)"

definition normalize :: "zone \<Rightarrow> int \<Rightarrow> int" where
  \<comment> \<open>\<open>Timestamp.normalize()\<close>: midnight, in the zone, of the timestamp's date\<close>
  "normalize z u = midnight z (date_of z u)"

definition minus_days :: "int \<Rightarrow> int \<Rightarrow> int" where
  \<comment> \<open>\<open>ts - pd.Timedelta(days=n)\<close>: a \<open>Timedelta\<close> is an absolute duration of
      \<open>n\<close> times 24 hours, whatever the zone of \<open>ts\<close>\<close>
  "minus_days u n = u - n * day_secs"

text \<open>
  Europe/London in 2024: GMT until 2024-03-31T01:00Z, BST (one hour ahead) until
  2024-10-27T01:00Z, GMT after. The two transitions are enough for every instant between
  2023-10-29T01:00Z and 2025-03-30T01:00Z.
\<close>

definition london_2024 :: zone where
  "london_2024 = \<lparr>base_offset = 0, transitions = [(1711846800, 3600), (1729990800, 0)]\<rparr>"

definition utc :: zone where
  "utc = \<lparr>base_offset = 0, transitions = []\<rparr>"

text \<open>
  Calendar dates are written year, month, day through Python's \<open>date.toordinal\<close>
  (\<open>date(1970, 1, 1).toordinal() = 719163\<close>).
\<close>

definition is_leap :: "int \<Rightarrow> bool" where
  "is_leap y = (if y mod 100 = 0 then y mod 400 = 0 else y mod 4 = 0)"

definition days_before_year :: "int \<Rightarrow> int" where
  "days_before_year y = (y - 1) * 365 + (y - 1) div 4 - (y - 1) div 100 + (y - 1) div 400"

definition days_before_month :: "int \<Rightarrow> int \<Rightarrow> int" where
  "days_before_month y m =
     sum_list (take (nat (m - 1)) [31, if is_leap y then 29 else 28, 31, 30, 31, 30, 31, 31, 30, 31, 30, 31])"

definition ymd :: "int \<Rightarrow> int \<Rightarrow> int \<Rightarrow> int" where
  "ymd y m d = days_before_year y + days_before_month y m + d - 719163"

definition at_utc :: "int \<Rightarrow> int \<Rightarrow> int \<Rightarrow> int \<Rightarrow> int \<Rightarrow> int" where
  \<comment> \<open>the instant \<open>y-m-d h:mi:00\<close> UTC\<close>
  "at_utc y m d h mi = ymd y m d * day_secs + h * 3600 + mi * 60"


section \<open>The series (llm\_plus\_executor\_demo.py)\<close>

text \<open>
  The data frame that \<open>load_table\<close> returns has the two columns \<open>date\<close> and
  \<open>amount\<close> and no row with a missing date. A \<open>date\<close> column has one dtype:
  \<open>datetime64[ns]\<close>, whose values are wall-clock readings without a zone
  (\<open>date_tz = None\<close>; what \<open>to_datetime\<close> makes of dates and times written
  without an offset, and of Excel date cells), or \<open>datetime64[ns, tz]\<close>, whose values
  are instants shown in the zone \<open>tz\<close> (\<open>date_tz = Some tz\<close>). Both are stored as
  seconds since the epoch.
\<close>

record frame =
  date_tz :: "zone option"
  rows :: "(int \<times> fl) list"

datatype exn = TypeError | AttributeError

definition dt_date :: "frame \<Rightarrow> int \<Rightarrow> int" where
  \<comment> \<open>\<open>df['date'].dt.date\<close>, for one value of the column\<close>
  "dt_date df t = (case date_tz df of None \<Rightarrow> t div day_secs | Some z \<Rightarrow> date_of z t)"

definition between :: "frame \<Rightarrow> int \<Rightarrow> int \<Rightarrow> exn + (int \<times> fl) list" where
  \<comment> \<open>\<open>df[(df['date'] >= lo) & (df['date'] <= hi)]\<close> for two timestamps that carry a
      zone: pandas refuses to order a column without a zone against them.\<close>
  "between df lo hi =
     (case date_tz df of
        None \<Rightarrow> Inl TypeError
      | Some z \<Rightarrow> Inr (filter (\<lambda>(t, x). lo \<le> t \<and> t \<le> hi) (rows df)))"

fun group_add :: "int \<Rightarrow> fl \<Rightarrow> (int \<times> fl) list \<Rightarrow> (int \<times> fl) list" where
  "group_add k x [] = [(k, x)]"
| "group_add k x ((k', s) # gs) =
     (if k = k' then (k', fl_add s x) # gs
      else if k < k' then (k, x) # (k', s) # gs
      else (k', s) # group_add k x gs)"

definition groupby_sum :: "(int \<times> fl) list \<Rightarrow> (int \<times> fl) list" where
  \<comment> \<open>\<open>groupby(key)['amount'].sum()\<close> on rows given as (key, amount): one entry for
      each key, in ascending order of the keys, with the sum of the group's amounts,
      NaN skipped\<close>
  "groupby_sum kxs = foldl (\<lambda>gs (k, x). group_add k (nan_to_zero x) gs) [] kxs"

definition mean_of_daily_sums :: "frame \<Rightarrow> (int \<times> fl) list \<Rightarrow> fl option" where
  \<comment> \<open>\<open>lw.groupby(lw['date'].dt.date)['amount'].sum().mean() if not lw.empty else None\<close>\<close>
  "mean_of_daily_sums df lw =
     (if lw \<noteq> [] then Some (nanmean (map snd (groupby_sum (map (\<lambda>(t, x). (dt_date df t, x)) lw))))
      else None)"

definition yesterday :: "zone \<Rightarrow> int \<Rightarrow> int" where
  \<comment> \<open>lines 80 to 82: \<open>today = pd.Timestamp.now(tz).normalize()\<close> and
      \<open>yday = (today - pd.Timedelta(days=1)).date()\<close>\<close>
  "yesterday tz now = date_of tz (minus_days (normalize tz now) 1)"

definition last_week :: "zone \<Rightarrow> int \<Rightarrow> int \<times> int" where
  \<comment> \<open>lines 87 to 89: the timestamps \<open>last_week_start\<close> and \<open>last_week_end\<close>\<close>
  "last_week tz yday =
     (let y_ts = midnight tz yday;
          last_week_end = normalize tz (minus_days y_ts ((weekday (date_of tz y_ts) + 1) mod 7));
          last_week_start = minus_days last_week_end 6
      in (last_week_start, last_week_end))"

definition compute_compare_y_vs_lastweekavg ::
  "zone \<Rightarrow> int \<Rightarrow> frame \<Rightarrow> exn + (fl option \<times> fl option \<times> (int \<times> int))" where
  \<comment> \<open>\<open>tz\<close> stands for \<open>ZoneInfo('Europe/London')\<close> and \<open>now\<close> for the instant that
      \<open>pd.Timestamp.now(tz)\<close> reads.\<close>
  "compute_compare_y_vs_lastweekavg tz now df =
     (let yday = yesterday tz now;
          a_df = filter (\<lambda>(t, x). dt_date df t = yday) (rows df);
          a = (if a_df \<noteq> [] then Some (nansum (map snd a_df)) else None);
          (last_week_start, last_week_end) = last_week tz yday
      in case between df last_week_start last_week_end of
           Inl e \<Rightarrow> Inl e
         | Inr lw \<Rightarrow>
             Inr (a, mean_of_daily_sums df lw, (date_of tz last_week_start, date_of tz last_week_end)))"


section \<open>JSON values\<close>

text \<open>
  What \<open>json.loads\<close> returns. An object keeps its members in the order of the text; a
  Python \<open>dict\<close> keeps the last value of a repeated key, which \<open>obj_get\<close> looks up.
\<close>

datatype json = JNull | JBool bool | JNum rat | JStr string | JArr "json list"
  | JObj "(string \<times> json) list"

definition obj_get :: "(string \<times> json) list \<Rightarrow> string \<Rightarrow> json option" where
  "obj_get kvs k = map_of (rev kvs) k"

definition py_get :: "json \<Rightarrow> string \<Rightarrow> exn + json option" where
  \<comment> \<open>\<open>x.get(k)\<close>: only a \<open>dict\<close> has the method\<close>
  "py_get x k = (case x of JObj kvs \<Rightarrow> Inr (obj_get kvs k) | _ \<Rightarrow> Inl AttributeError)"

text \<open>
  \<open>json.loads\<close> is the standard library's. The parser below is a parameter of the
  model; \<open>json_loads\<close> implements it for the texts of the examples: objects, arrays,
  strings with the two-character escapes, decimal numbers, \<open>true\<close>, \<open>false\<close> and
  \<open>null\<close>, with blanks between tokens. The escape \<open>\u\<close> and the literals \<open>NaN\<close> and
  \<open>Infinity\<close>, which Python also reads, are not part of it. The first argument of
  the three mutually recursive functions bounds the number of calls.
\<close>

definition json_ws :: "char \<Rightarrow> bool" where
  "json_ws c = (c \<in> set [CHR '' '', CHR 0x09, CHR 0x0A, CHR 0x0D])"

definition skip_ws :: "string \<Rightarrow> string" where
  "skip_ws cs = dropWhile json_ws cs"

definition is_digit :: "char \<Rightarrow> bool" where
  "is_digit c = (48 \<le> (of_char c :: nat) \<and> (of_char c :: nat) \<le> 57)"

definition digits_val :: "string \<Rightarrow> int" where
  "digits_val ds = foldl (\<lambda>n c. 10 * n + (int (of_char c) - 48)) 0 ds"

definition unescape :: "char \<Rightarrow> char option" where
  "unescape e =
     (if e = CHR 0x22 \<or> e = CHR 0x5C \<or> e = CHR ''/'' then Some e
      else if e = CHR ''b'' then Some (CHR 0x08)
      else if e = CHR ''f'' then Some (CHR 0x0C)
      else if e = CHR ''n'' then Some (CHR 0x0A)
      else if e = CHR ''r'' then Some (CHR 0x0D)
      else if e = CHR ''t'' then Some (CHR 0x09)
      else None)"

fun string_body :: "string \<Rightarrow> string \<Rightarrow> (string \<times> string) option" where
  \<comment> \<open>the text after an opening quote, up to the closing one\<close>
  "string_body acc [] = None"
| "string_body acc [c] = (if c = CHR 0x22 then Some (rev acc, []) else None)"
| "string_body acc (c # e # cs) =
     (if c = CHR 0x22 then Some (rev acc, e # cs)
      else if c = CHR 0x5C
        then (case unescape e of None \<Rightarrow> None | Some x \<Rightarrow> string_body (x # acc) cs)
      else if (of_char c :: nat) < 32 then None
      else string_body (c # acc) (e # cs))"

definition pow10 :: "int \<Rightarrow> rat" where
  "pow10 e = (if e \<ge> 0 then 10 ^ nat e else 1 / 10 ^ nat (- e))"

definition number :: "string \<Rightarrow> (rat \<times> string) option" where
  "number cs =
     (let neg = (cs \<noteq> [] \<and> hd cs = CHR ''-'');
          cs1 = (if neg then tl cs else cs);
          ds = takeWhile is_digit cs1;
          r1 = dropWhile is_digit cs1;
          has_frac = (r1 \<noteq> [] \<and> hd r1 = CHR ''.'' \<and> takeWhile is_digit (tl r1) \<noteq> []);
          fs = (if has_frac then takeWhile is_digit (tl r1) else []);
          r2 = (if has_frac then dropWhile is_digit (tl r1) else r1);
          r3 = (if r2 \<noteq> [] \<and> (hd r2 = CHR ''e'' \<or> hd r2 = CHR ''E'') then tl r2 else []);
          eneg = (r3 \<noteq> [] \<and> hd r3 = CHR ''-'');
          r4 = (if r3 \<noteq> [] \<and> (hd r3 = CHR ''-'' \<or> hd r3 = CHR ''+'') then tl r3 else r3);
          has_exp = (takeWhile is_digit r4 \<noteq> []);
          es = takeWhile is_digit r4;
          rest = (if has_exp then dropWhile is_digit r4 else r2);
          mag = (of_int (digits_val (ds @ fs)) :: rat) * pow10 (- int (length fs))
                  * pow10 (if has_exp then (if eneg then - digits_val es else digits_val es) else 0)
      in if ds = [] \<or> (length ds > 1 \<and> hd ds = CHR ''0'') then None
         else Some (if neg then - mag else mag, rest))"

fun parse_value :: "nat \<Rightarrow> string \<Rightarrow> (json \<times> string) option"
  and parse_elements :: "nat \<Rightarrow> json list \<Rightarrow> string \<Rightarrow> (json \<times> string) option"
  and parse_members :: "nat \<Rightarrow> (string \<times> json) list \<Rightarrow> string \<Rightarrow> (json \<times> string) option"
where
  "parse_value 0 cs = None"
| "parse_value (Suc n) cs =
     (if startswith ''{'' cs
        then (if startswith ''}'' (skip_ws (tl cs)) then Some (JObj [], tl (skip_ws (tl cs)))
              else parse_members n [] (skip_ws (tl cs)))
      else if startswith ''['' cs
        then (if startswith '']'' (skip_ws (tl cs)) then Some (JArr [], tl (skip_ws (tl cs)))
              else parse_elements n [] (skip_ws (tl cs)))
      else if startswith [CHR 0x22] cs
        then (case string_body [] (tl cs) of None \<Rightarrow> None | Some (s, r) \<Rightarrow> Some (JStr s, r))
      else if startswith ''null'' cs then Some (JNull, drop 4 cs)
      else if startswith ''true'' cs then Some (JBool True, drop 4 cs)
      else if startswith ''false'' cs then Some (JBool False, drop 5 cs)
      else (case number cs of None \<Rightarrow> None | Some (x, r) \<Rightarrow> Some (JNum x, r)))"
| "parse_elements 0 acc cs = None"
| "parse_elements (Suc n) acc cs =
     (case parse_value n cs of
        None \<Rightarrow> None
      | Some (v, r) \<Rightarrow>
          (if startswith '']'' (skip_ws r) then Some (JArr (rev (v # acc)), tl (skip_ws r))
           else if startswith '','' (skip_ws r) then parse_elements n (v # acc) (skip_ws (tl (skip_ws r)))
           else None))"
| "parse_members 0 acc cs = None"
| "parse_members (Suc n) acc cs =
     (if startswith [CHR 0x22] cs
      then (case string_body [] (tl cs) of
              None \<Rightarrow> None
            | Some (k, r) \<Rightarrow>
                (if startswith '':'' (skip_ws r)
                 then (case parse_value n (skip_ws (tl (skip_ws r))) of
                         None \<Rightarrow> None
                       | Some (v, r') \<Rightarrow>
                           (if startswith ''}'' (skip_ws r')
                              then Some (JObj (rev ((k, v) # acc)), tl (skip_ws r'))
                            else if startswith '','' (skip_ws r')
                              then parse_members n ((k, v) # acc) (skip_ws (tl (skip_ws r')))
                            else None))
                 else None))
      else None)"

definition json_loads :: "string \<Rightarrow> json option" where
  "json_loads s =
     (case parse_value (2 * length s + 2) (skip_ws s) of
        None \<Rightarrow> None
      | Some (v, r) \<Rightarrow> if skip_ws r = [] then Some v else None)"


section \<open>The intent parser (call\_ollama\_json)\<close>

text \<open>
  What running \<open>ollama\<close> gave: \<open>subprocess.run(..., check=True)\<close> raises
  \<open>CalledProcessError\<close> (with the captured stderr) when the process returns a non-zero
  status, may raise another exception (the program is not installed), or returns the
  captured stdout, here already decoded.
\<close>

datatype proc = CalledProcessError string | OtherError string | Stdout string

datatype call_error = ProcessFailed string | RunFailed string | ValueError string

definition unfence :: "string \<Rightarrow> string" where
  \<comment> \<open>lines 65 to 68\<close>
  "unfence text =
     (if startswith [CHR 0x60, CHR 0x60, CHR 0x60] text
      then (let t = strip_chars [CHR 0x60, CHR '' '', CHR 0x0A] text
            in if CHR 0x0A \<in> set t then split1 (CHR 0x0A) t ! 1 else t)
      else text)"

definition brace_slice :: "string \<Rightarrow> string option" where
  \<comment> \<open>\<open>text[text.index('{'): text.rindex('}')+1]\<close>; \<open>None\<close> when \<open>index\<close> or
      \<open>rindex\<close> raises because the brace is missing\<close>
  "brace_slice text =
     (if CHR ''{'' \<in> set text \<and> CHR ''}'' \<in> set text
      then (let i = length (takeWhile (\<lambda>c. c \<noteq> CHR ''{'') text);
                j = length text - 1 - length (takeWhile (\<lambda>c. c \<noteq> CHR ''}'') (rev text))
            in Some (take (j + 1 - i) (drop i text)))
      else None)"

definition parse_text :: "(string \<Rightarrow> json option) \<Rightarrow> string \<Rightarrow> string + json" where
  \<comment> \<open>lines 63 to 77, from the decoded stdout on; \<open>Inl text\<close> stands for the
      \<open>ValueError\<close>, whose message is a fixed prefix followed by \<open>text\<close>\<close>
  "parse_text loads out =
     (let text = unfence (strip out)
      in case loads text of
           Some v \<Rightarrow> Inr v
         | None \<Rightarrow>
             (case brace_slice text of
                None \<Rightarrow> Inl text
              | Some s \<Rightarrow> (case loads s of Some v \<Rightarrow> Inr v | None \<Rightarrow> Inl text)))"

definition call_ollama_json :: "(string \<Rightarrow> json option) \<Rightarrow> proc \<Rightarrow> call_error + json" where
  "call_ollama_json loads p =
     (case p of
        CalledProcessError e \<Rightarrow> Inl (ProcessFailed e)
      | OtherError e \<Rightarrow> Inl (RunFailed e)
      | Stdout out \<Rightarrow>
          (case parse_text loads out of Inl text \<Rightarrow> Inl (ValueError text) | Inr v \<Rightarrow> Inr v))"


section \<open>The pipeline (main of llm\_plus\_executor\_demo.py)\<close>

datatype direction = Increase | Decrease | NoChange

text \<open>
  What \<open>main\<close> prints before it ends: one of the five messages, or the result block
  with yesterday's total, last week's daily mean, the difference, the percentage (absent
  when the mean is zero), the direction and the dates of the window. The formatting of
  the numbers is not modelled.
\<close>

datatype report =
    EmptyData
  | OllamaError string
  | Failure string
  | InsufficientData
  | Result fl fl fl "fl option" direction "int \<times> int"
  | NotSupported

text \<open>
  A run ends through \<open>sys.exit(n)\<close> or the end of \<open>main\<close> (status 0), or with an
  exception that nothing catches: Python prints the traceback and the status is 1.
\<close>

datatype outcome = Exit nat report | Uncaught exn

fun exit_status :: "outcome \<Rightarrow> nat" where
  "exit_status (Exit n r) = n"
| "exit_status (Uncaught e) = 1"

definition main_compare :: "fl option \<Rightarrow> fl option \<Rightarrow> int \<times> int \<Rightarrow> report" where
  \<comment> \<open>lines 124 to 134\<close>
  "main_compare a b w =
     (case (a, b) of
        (Some x, Some y) \<Rightarrow>
          (if isna y then InsufficientData
           else (let diff = fl_sub x y;
                     pct = (if fl_ne0 y then Some (fl_mul (fl_div diff y) (Fin 100)) else None);
                     sign = (if fl_gt0 diff then Increase else if fl_lt0 diff then Decrease
                             else NoChange)
                 in Result x y diff pct sign w))
      | _ \<Rightarrow> InsufficientData)"

definition main_supported :: "json \<Rightarrow> exn + bool" where
  \<comment> \<open>the two conditions of lines 120 to 122; \<open>and\<close> evaluates its right operand only
      when the left one holds\<close>
  "main_supported parsed =
     (case py_get parsed ''intent'' of
        Inl e \<Rightarrow> Inl e
      | Inr i \<Rightarrow>
          (if i \<noteq> Some (JStr ''compare'') then Inr False
           else (case py_get parsed ''metric'' of
                   Inl e \<Rightarrow> Inl e
                 | Inr m \<Rightarrow>
                     (if m \<notin> set [Some (JStr ''sales''), Some (JStr ''sales_amount'')] then Inr False
                      else (case py_get parsed ''time'' of
                              Inl e \<Rightarrow> Inl e
                            | Inr tv \<Rightarrow>
                                (let t = (case tv of None \<Rightarrow> JObj [] | Some v \<Rightarrow> v)
                                 in case py_get t ''a'' of
                                      Inl e \<Rightarrow> Inl e
                                    | Inr ta \<Rightarrow>
                                        (if ta \<noteq> Some (JStr ''yesterday'') then Inr False
                                         else (case py_get t ''b'' of
                                                 Inl e \<Rightarrow> Inl e
                                               | Inr tb \<Rightarrow>
                                                   Inr (tb \<in> set [Some (JStr ''last_week_avg''),
                                                                   Some (JStr ''lastweek_avg''),
                                                                   Some (JStr ''last_week_average'')])))))))))"

definition main :: "(string \<Rightarrow> json option) \<Rightarrow> zone \<Rightarrow> int \<Rightarrow> frame \<Rightarrow> proc \<Rightarrow> outcome" where
  \<comment> \<open>\<open>df\<close> is what \<open>load_table\<close> returned and \<open>p\<close> what running the model gave\<close>
  "main loads tz now df p =
     (if rows df = [] then Exit 1 EmptyData
      else case call_ollama_json loads p of
             Inl (ProcessFailed e) \<Rightarrow> Exit 2 (OllamaError e)
           | Inl (RunFailed e) \<Rightarrow> Exit 3 (Failure e)
           | Inl (ValueError text) \<Rightarrow> Exit 3 (Failure text)
           | Inr parsed \<Rightarrow>
               (case main_supported parsed of
                  Inl e \<Rightarrow> Uncaught e
                | Inr False \<Rightarrow> Exit 0 NotSupported
                | Inr True \<Rightarrow>
                    (case compute_compare_y_vs_lastweekavg tz now df of
                       Inl e \<Rightarrow> Uncaught e
                     | Inr (a, b, w) \<Rightarrow> Exit 0 (main_compare a b w))))"


section \<open>The interactive playground (ollama\_playground.py)\<close>

type_synonym message = "string \<times> string"

text \<open>
  The local variables of \<open>main\<close> that the loop reads and writes. \<open>transcript\<close> is the
  list of markdown blocks; \<open>model\<close> is the model name in use.
\<close>

record playground =
  history :: "message list"
  system_msg :: string
  transcript :: "string list"
  model :: string

text \<open>The command-line options that the loop reads but never writes.\<close>

record options =
  opt_json :: bool
  opt_save :: string
  opt_ctx :: "int option"
  opt_temp :: string

definition build_prompt :: "string \<Rightarrow> message list \<Rightarrow> bool \<Rightarrow> string" where
  "build_prompt sysmsg hist json_mode =
     (let sys_block = (if sysmsg \<noteq> [] then ''SYSTEM:'' @ [CHR 0x0A] @ sysmsg @ [CHR 0x0A, CHR 0x0A]
                       else []);
          conv = map (\<lambda>(role, content). upper role @ '':'' @ [CHR 0x0A] @ content @ [CHR 0x0A]) hist;
          prompt = sys_block @ join [CHR 0x0A] conv
      in if json_mode
         then prompt @ [CHR 0x0A] @ ''(Respond ONLY with valid JSON. No extra text.)'' @ [CHR 0x0A]
         else prompt)"

text \<open>
  \<open>run_ollama\<close> starts an external process. It is a parameter of the model: a function
  from the model name, the prompt, the context size and the temperature to either the
  text of the exception it raises (\<open>Inl\<close>) or the stripped reply (\<open>Inr\<close>).
\<close>

type_synonym ollama = "string \<Rightarrow> string \<Rightarrow> int option \<Rightarrow> string \<Rightarrow> string + string"

text \<open>
  One pass through the body of \<open>while True\<close> for an input line that was read
  successfully; \<open>user\<close> is the line after \<open>.strip()\<close>. The result is \<open>None\<close> when
  the loop is left by \<open>break\<close> and the next state otherwise. Printing and the writing of
  the transcript file change none of the four variables (a failed write is caught and
  reported) and are left out.
\<close>

definition command :: "options \<Rightarrow> playground \<Rightarrow> string \<Rightarrow> playground option" where
  "command opts st user =
     (let parts = split1 CHR '' '' user;
          cmd = lower (hd parts);
          arg = (if length parts > 1 then strip (parts ! 1) else [])
      in if cmd = ''/exit'' then None
         else if cmd = ''/reset'' then Some (st\<lparr>history := []\<rparr>)
         else if cmd = ''/sys'' then Some (st\<lparr>system_msg := arg\<rparr>)
         else if cmd = ''/save'' then Some st
         else if cmd = ''/model'' then Some (st\<lparr>model := (if arg \<noteq> [] then arg else model st)\<rparr>)
         else Some st)"

definition normal_turn :: "ollama \<Rightarrow> options \<Rightarrow> playground \<Rightarrow> string \<Rightarrow> playground" where
  "normal_turn run_ollama opts st user =
     (let st1 = st\<lparr>history := history st @ [(''user'', user)]\<rparr>;
          prompt = build_prompt (system_msg st1) (history st1) (opt_json opts)
      in case run_ollama (model st1) prompt (opt_ctx opts) (opt_temp opts) of
           Inl e \<Rightarrow> st1\<lparr>history := butlast (history st1)\<rparr>
         | Inr reply \<Rightarrow>
             st1\<lparr>history := history st1 @ [(''assistant'', reply)],
                 transcript := transcript st1
                   @ [''**You:** '' @ user, ''**Assistant:**'' @ [CHR 0x0A] @ reply @ [CHR 0x0A]]\<rparr>)"

definition loop_body :: "ollama \<Rightarrow> options \<Rightarrow> playground \<Rightarrow> string \<Rightarrow> playground option" where
  "loop_body run_ollama opts st user =
     (if user = [] then Some st
      else if startswith ''/'' user then command opts st user
      else Some (normal_turn run_ollama opts st user))"


section \<open>The intent schema\<close>

text \<open>
  The shape that the prompt asks of the model (\<open>JSON_SCHEMA_DESC\<close>): an object whose
  \<open>intent\<close> and \<open>metric\<close> are strings and whose \<open>time\<close> is an object with a
  string \<open>a\<close> and, when present, a string \<open>b\<close>. The intent may be any string.
\<close>

fun is_str :: "json option \<Rightarrow> bool" where
  "is_str (Some (JStr s)) = True"
| "is_str x = False"

fun members :: "json option \<Rightarrow> (string \<times> json) list option" where
  "members (Some (JObj kvs)) = Some kvs"
| "members x = None"

definition valid_intent :: "json \<Rightarrow> bool" where
  "valid_intent j =
     (case members (Some j) of
        None \<Rightarrow> False
      | Some kvs \<Rightarrow>
          is_str (obj_get kvs ''intent'') \<and> is_str (obj_get kvs ''metric'')
          \<and> (case members (obj_get kvs ''time'') of
                None \<Rightarrow> False
              | Some t \<Rightarrow>
                  is_str (obj_get t ''a'')
                  \<and> (if obj_get t ''b'' = None then True else is_str (obj_get t ''b''))))"

text \<open>
  The one combination that the specification names as wired to a handler, in the
  specification's words: intent \<open>compare\<close>, metric \<open>sales\<close> or \<open>sales_amount\<close>,
  \<open>time.a\<close> \<open>yesterday\<close> and \<open>time.b\<close> one of the three spellings of last week's
  average.
\<close>

definition wired :: "json \<Rightarrow> bool" where
  "wired j =
     (case members (Some j) of
        None \<Rightarrow> False
      | Some kvs \<Rightarrow>
          obj_get kvs ''intent'' = Some (JStr ''compare'')
          \<and> obj_get kvs ''metric'' \<in> set [Some (JStr ''sales''), Some (JStr ''sales_amount'')]
          \<and> (case members (obj_get kvs ''time'') of
                None \<Rightarrow> False
              | Some t \<Rightarrow>
                  obj_get t ''a'' = Some (JStr ''yesterday'')
                  \<and> obj_get t ''b'' \<in> set [Some (JStr ''last_week_avg''), Some (JStr ''lastweek_avg''),
                                           Some (JStr ''last_week_average'')]))"


section \<open>The mean of daily sums, as specified\<close>





section \<open>The seven-day example\<close>




section \<open>The intent parser, as specified\<close>





section \<open>Properties of the executor\<close>

lemmas time_defs = yesterday_def last_week_def normalize_def midnight_def date_of_def
  from_wall_def utcoffset_def minus_days_def day_secs_def weekday_def at_utc_def ymd_def
  days_before_year_def days_before_month_def is_leap_def london_2024_def utc_def

subsection \<open>Zones without a transition\<close>

lemma fixed_date_of: "transitions z = [] \<Longrightarrow> date_of z u = (u + base_offset z) div 86400"
  by (simp add: date_of_def utcoffset_def day_secs_def)

lemma fixed_midnight: "transitions z = [] \<Longrightarrow> midnight z d = d * 86400 - base_offset z"
  by (simp add: midnight_def from_wall_def day_secs_def)

lemma fixed_date_of_midnight: "transitions z = [] \<Longrightarrow> date_of z (midnight z d) = d"
  by (simp add: fixed_date_of fixed_midnight)

lemma fixed_minus_days:
  "transitions z = [] \<Longrightarrow> minus_days (midnight z d) n = midnight z (d - n)"
  by (simp add: fixed_midnight minus_days_def day_secs_def algebra_simps)

lemma fixed_normalize_midnight: "transitions z = [] \<Longrightarrow> normalize z (midnight z d) = midnight z d"
  by (simp add: normalize_def fixed_date_of_midnight)

lemma fixed_yesterday: "transitions z = [] \<Longrightarrow> yesterday z now = date_of z now - 1"
  by (simp add: yesterday_def normalize_def fixed_minus_days fixed_date_of_midnight)

lemma fixed_last_week:
  "transitions z = [] \<Longrightarrow>
   last_week z d = (midnight z (d - (weekday d + 1) mod 7 - 6), midnight z (d - (weekday d + 1) mod 7))"
  by (simp add: last_week_def Let_def fixed_date_of_midnight fixed_minus_days fixed_normalize_midnight)

lemma sunday_before: "weekday (d - (weekday d + 1) mod 7) = 6"
  unfolding weekday_def by presburger


text \<open>
  In a zone whose offset never changes the window is the one intended, for every
  instant: it ends on the Sunday \<open>((weekday(yesterday) + 1) mod 7)\<close> days before
  yesterday, starts six days earlier and ends before today.
\<close>

lemma last_week_fixed_zone:
  assumes z: "transitions z = []"
  shows "map_prod (date_of z) (date_of z) (last_week z (yesterday z now)) =
           (yesterday z now - (weekday (yesterday z now) + 1) mod 7 - 6,
            yesterday z now - (weekday (yesterday z now) + 1) mod 7)"
    and "weekday (yesterday z now - (weekday (yesterday z now) + 1) mod 7) = 6"
    and "yesterday z now - (weekday (yesterday z now) + 1) mod 7 < date_of z now"
proof -
  show "map_prod (date_of z) (date_of z) (last_week z (yesterday z now)) =
           (yesterday z now - (weekday (yesterday z now) + 1) mod 7 - 6,
            yesterday z now - (weekday (yesterday z now) + 1) mod 7)"
    by (simp add: fixed_last_week [OF z] fixed_date_of_midnight [OF z])
  show "weekday (yesterday z now - (weekday (yesterday z now) + 1) mod 7) = 6"
    by (rule sunday_before)
  have "0 \<le> (weekday (yesterday z now) + 1) mod 7" by simp
  then show "yesterday z now - (weekday (yesterday z now) + 1) mod 7 < date_of z now"
    unfolding fixed_yesterday [OF z] by linarith
qed

text \<open>
  C1. The last-week window is meant to be the seven days that end on the Sunday
  \<open>((weekday(yesterday) + 1) mod 7)\<close> days before yesterday. The code steps back by
  that many times 24 hours from yesterday's midnight and cuts the result to a midnight.
  In the week after the clocks go forward the step lands at 23:00 of the Saturday: at
  noon of Tuesday 2024-04-02 in London, yesterday is Monday 2024-04-01 and the window is
  2024-03-24 to 2024-03-30, which ends on a Saturday (weekday 5), so that a row of Sunday
  2024-03-31 is in no week.
\<close>

theorem last_week_after_clock_change:
  "yesterday london_2024 (at_utc 2024 4 2 11 0) = ymd 2024 4 1
   \<and> map_prod (date_of london_2024) (date_of london_2024) (last_week london_2024 (ymd 2024 4 1))
       = (ymd 2024 3 24, ymd 2024 3 30)
   \<and> weekday (ymd 2024 3 30) = 5
   \<and> compute_compare_y_vs_lastweekavg london_2024 (at_utc 2024 4 2 11 0)
        \<lparr>date_tz = Some utc, rows = [(at_utc 2024 3 31 0 0, Fin 70)]\<rparr>
       = Inr (None, None, (ymd 2024 3 24, ymd 2024 3 30))"
  by code_simp

subsection \<open>Grouping by date\<close>



















subsection \<open>The comparison\<close>

text \<open>
  C3. When either aggregate is missing or is NaN the comparison is meant to end with the
  insufficient-data message. The code tests \<open>a is None\<close>, \<open>b is None\<close> and
  \<open>pd.isna(b)\<close>, but not \<open>pd.isna(a)\<close>: with yesterday's total NaN (the amounts of
  Monday 2024-03-04 are \<open>inf\<close> and \<open>-inf\<close>) and a daily mean of 120 the run prints the
  result block, with NaN as total, difference and percentage and "no change" as direction.
\<close>

theorem nan_total_is_answered:
  \<open>main_compare (Some NaN) (Some (Fin 120)) w = Result NaN (Fin 120) NaN (Some NaN) NoChange w
   \<and> main json_loads london_2024 (at_utc 2024 3 5 12 0)
       \<lparr>date_tz = Some utc,
        rows = [(at_utc 2024 2 27 0 0, Fin 120), (at_utc 2024 3 4 0 0, PInf), (at_utc 2024 3 4 0 0, NInf)]\<rparr>
       (Stdout ''{"intent":"compare","metric":"sales","time":{"a":"yesterday","b":"last_week_avg"}}'')
     = Exit 0 (Result NaN (Fin 120) NaN (Some NaN) NoChange (ymd 2024 2 26, ymd 2024 3 3))\<close>
proof -
  have "main_compare (Some NaN) (Some (Fin 120)) w = Result NaN (Fin 120) NaN (Some NaN) NoChange w"
    by (simp add: main_compare_def isna_def fl_sub_def)
  moreover have \<open>main json_loads london_2024 (at_utc 2024 3 5 12 0)
       \<lparr>date_tz = Some utc,
        rows = [(at_utc 2024 2 27 0 0, Fin 120), (at_utc 2024 3 4 0 0, PInf), (at_utc 2024 3 4 0 0, NInf)]\<rparr>
       (Stdout ''{"intent":"compare","metric":"sales","time":{"a":"yesterday","b":"last_week_avg"}}'')
     = Exit 0 (Result NaN (Fin 120) NaN (Some NaN) NoChange (ymd 2024 2 26, ymd 2024 3 3))\<close>
    by code_simp
  ultimately show ?thesis by simp
qed

text \<open>The three cases that the code does test end with the message and status 0.\<close>

lemma main_compare_insufficient:
  "a = None \<or> b = None \<or> b = Some NaN \<Longrightarrow> main_compare a b w = InsufficientData"
  by (auto simp add: main_compare_def isna_def split: option.splits)

text \<open>
  C4. For two finite aggregates \<open>a\<close> and \<open>b\<close> the comparison computes the difference
  \<open>a - b\<close>; the direction is increase when the difference is positive, decrease when it
  is negative and none otherwise; the percentage is \<open>(diff / b) * 100\<close> when \<open>b\<close> is
  not zero and absent when it is. For 90 against 100 the difference is -10, the
  percentage -10 and the direction decrease.
\<close>

theorem main_compare_numeric:
  "main_compare (Some (Fin a)) (Some (Fin b)) w =
     Result (Fin a) (Fin b) (Fin (a - b))
       (if b \<noteq> 0 then Some (Fin ((a - b) / b * 100)) else None)
       (if a - b > 0 then Increase else if a - b < 0 then Decrease else NoChange) w"
  by (simp add: main_compare_def isna_def fl_sub_def Let_def)

theorem main_compare_numeric_witness:
  "main_compare (Some (Fin 90)) (Some (Fin 100)) (ymd 2024 2 26, ymd 2024 3 3) =
     Result (Fin 90) (Fin 100) (Fin (- 10)) (Some (Fin (- 10))) Decrease (ymd 2024 2 26, ymd 2024 3 3)"
  using main_compare_numeric [of 90 100 "(ymd 2024 2 26, ymd 2024 3 3)"] by simp

subsection \<open>Fences and braces\<close>










subsection \<open>The dispatch\<close>

lemma members_Some: "members x = Some kvs \<Longrightarrow> x = Some (JObj kvs)"
  by (cases x rule: members.cases) simp_all

lemma supported_wired:
  assumes "valid_intent parsed"
  shows "main_supported parsed = Inr (wired parsed)"
proof -
  from assms obtain kvs where m: "members (Some parsed) = Some kvs"
    by (cases "members (Some parsed)") (simp_all add: valid_intent_def)
  then have p: "parsed = JObj kvs"
    using members_Some by blast
  from assms m obtain t where mt: "members (obj_get kvs ''time'') = Some t"
    by (cases "members (obj_get kvs ''time'')") (simp_all add: valid_intent_def)
  then have t: "obj_get kvs ''time'' = Some (JObj t)"
    by (rule members_Some)
  show ?thesis
    unfolding main_supported_def wired_def
    by (simp add: p t py_get_def)
qed

text \<open>
  C6. For every intent of the schema, parsed from the output of a model run on a
  series that has rows, the two conditions of \<open>main\<close> hold exactly when the intent
  is \<open>compare\<close>, the metric is \<open>sales\<close> or \<open>sales_amount\<close>, \<open>time.a\<close> is
  \<open>yesterday\<close> and \<open>time.b\<close> is \<open>last_week_avg\<close>, \<open>lastweek_avg\<close> or
  \<open>last_week_average\<close>; then and only then the comparison is computed. Every other
  intent of the schema, whatever its kind, ends with the message that the combination is
  not supported and with exit status 0.
\<close>

theorem dispatch_exactly_wired:
  assumes "valid_intent parsed" and "rows df \<noteq> []" and "call_ollama_json loads p = Inr parsed"
  shows "main_supported parsed = Inr (wired parsed)
    \<and> main loads tz now df p =
          (if wired parsed
           then (case compute_compare_y_vs_lastweekavg tz now df of
                   Inl e \<Rightarrow> Uncaught e
                 | Inr (a, b, w) \<Rightarrow> Exit 0 (main_compare a b w))
           else Exit 0 NotSupported)"
  using assms(2,3) supported_wired [OF assms(1)] by (simp add: main_def)

theorem dispatch_exactly_wired_witness:
  \<open>main json_loads london_2024 (at_utc 2024 3 4 12 0)
      \<lparr>date_tz = Some utc, rows = [(at_utc 2024 3 3 0 0, Fin 50)]\<rparr>
      (Stdout ''{"intent":"forecast","metric":"sales","time":{"a":"last_7d"}}'')
    = Exit 0 NotSupported
   \<and> main_supported (JObj [(''intent'', JStr ''compare''), (''metric'', JStr ''sales_amount''),
        (''time'', JObj [(''a'', JStr ''yesterday''), (''b'', JStr ''last_week_average'')])]) = Inr True\<close>
proof -
  let ?df = "\<lparr>date_tz = Some utc, rows = [(at_utc 2024 3 3 0 0, Fin 50)]\<rparr>"
  let ?j = "JObj [(''intent'', JStr ''forecast''), (''metric'', JStr ''sales''),
        (''time'', JObj [(''a'', JStr ''last_7d'')])]"
  let ?k = "JObj [(''intent'', JStr ''compare''), (''metric'', JStr ''sales_amount''),
        (''time'', JObj [(''a'', JStr ''yesterday''), (''b'', JStr ''last_week_average'')])]"
  have v: "valid_intent ?j" by code_simp
  have r: "rows ?df \<noteq> []" by simp
  have c: \<open>call_ollama_json json_loads
      (Stdout ''{"intent":"forecast","metric":"sales","time":{"a":"last_7d"}}'') = Inr ?j\<close>
    by code_simp
  have w: "\<not> wired ?j" by code_simp
  have vk: "valid_intent ?k" by code_simp
  have wk: "wired ?k" by code_simp
  have ck: \<open>call_ollama_json json_loads
      (Stdout ''{"intent":"compare","metric":"sales_amount","time":{"a":"yesterday","b":"last_week_average"}}'') = Inr ?k\<close>
    by code_simp
  from dispatch_exactly_wired [OF v r c, of london_2024 "at_utc 2024 3 4 12 0"]
    dispatch_exactly_wired [OF vk r ck, of utc 0] w wk
  show ?thesis by simp
qed

subsection \<open>The rows of last week\<close>

text \<open>
  C7. The rows of last week are meant to be those whose calendar date lies in the
  window, both ends included, whatever their time of day, and selecting them is meant to
  succeed for every loaded series. The code compares the \<open>date\<close> column with the two
  midnights that bound the window. For a column without a zone (dates written without an
  offset) the comparison raises \<open>TypeError\<close>. For a column with a zone, a row of Sunday
  2024-03-03 at 10:00, the last day of the window 2024-02-26 to 2024-03-03, is later than
  the midnight that opens that Sunday and is left out: on Monday 2024-03-04 it counts as
  yesterday's total and last week has no row.
\<close>

theorem last_week_rows_lost:
  "compute_compare_y_vs_lastweekavg london_2024 (at_utc 2024 3 4 12 0)
     \<lparr>date_tz = None, rows = [(at_utc 2024 3 1 0 0, Fin 100)]\<rparr> = Inl TypeError
   \<and> dt_date \<lparr>date_tz = Some utc, rows = [(at_utc 2024 3 3 10 0, Fin 50)]\<rparr> (at_utc 2024 3 3 10 0)
       = ymd 2024 3 3
   \<and> compute_compare_y_vs_lastweekavg london_2024 (at_utc 2024 3 4 12 0)
       \<lparr>date_tz = Some utc, rows = [(at_utc 2024 3 3 10 0, Fin 50)]\<rparr>
       = Inr (Some (Fin 50), None, (ymd 2024 2 26, ymd 2024 3 3))"
  by code_simp

subsection \<open>The seven-day example\<close>








subsection \<open>Exit status\<close>

text \<open>The three failures that the code does report end with the status 1, 2 or 3.\<close>

lemma main_reported_failures:
  shows "rows df = [] \<Longrightarrow> main loads tz now df p = Exit 1 EmptyData"
    and "rows df \<noteq> [] \<Longrightarrow> main loads tz now df (CalledProcessError e) = Exit 2 (OllamaError e)"
    and "rows df \<noteq> [] \<Longrightarrow> main loads tz now df (OtherError e) = Exit 3 (Failure e)"
    and "rows df \<noteq> [] \<Longrightarrow> parse_text loads out = Inl t \<Longrightarrow>
           main loads tz now df (Stdout out) = Exit 3 (Failure t)"
  by (simp_all add: main_def call_ollama_json_def)

text \<open>
  C9. The exit status is meant to be non-zero only for an empty series, a failed call of
  the model or an output that is not JSON. With a series that has a row and the model
  output \<open>[]\<close>, which is JSON, \<open>parsed.get\<close> raises \<open>AttributeError\<close>, nothing
  catches it and the status is 1.
\<close>

theorem json_array_crashes:
  \<open>call_ollama_json json_loads (Stdout ''[]'') = Inr (JArr [])
   \<and> main json_loads london_2024 (at_utc 2024 3 4 12 0)
       \<lparr>date_tz = Some utc, rows = [(at_utc 2024 3 3 0 0, Fin 50)]\<rparr> (Stdout ''[]'')
      = Uncaught AttributeError
   \<and> exit_status (Uncaught AttributeError) = 1\<close>
  by code_simp


section \<open>Properties of the playground\<close>

text \<open>
  C10. In the interactive playground, a turn whose call of the external model raises an
  error leaves the conversation history exactly as it was before the turn: the user
  message appended for the turn is removed again and no assistant message is added, so
  the state that later turns send is unchanged.
\<close>

theorem failed_turn_keeps_history:
  assumes "user \<noteq> []" and "\<not> startswith ''/'' user"
    and "run_ollama (model st) (build_prompt (system_msg st) (history st @ [(''user'', user)])
           (opt_json opts)) (opt_ctx opts) (opt_temp opts) = Inl e"
  shows "loop_body run_ollama opts st user = Some st"
  using assms by (simp add: loop_body_def normal_turn_def)

theorem failed_turn_keeps_history_witness:
  "loop_body (\<lambda>m p c t. Inl ''connection refused'') \<lparr>opt_json = False, opt_save = [], opt_ctx = None, opt_temp = ''0.7''\<rparr>
     \<lparr>history = [(''user'', ''hi''), (''assistant'', ''hello'')], system_msg = [], transcript = [],
      model = ''llama3.2''\<rparr> ''how are you''
   = Some \<lparr>history = [(''user'', ''hi''), (''assistant'', ''hello'')], system_msg = [], transcript = [],
      model = ''llama3.2''\<rparr>"
  by (rule failed_turn_keeps_history) (simp_all add: startswith_def)

end
